theory Spec2Isabelle
  imports Complex_Main
begin

section \<open>The science layer of the CO2 balloon simulator\<close>

text \<open>
  The module \<^verbatim>\<open>app.py\<close> has six pure functions over Python numbers. They are embedded
  here one to one. Python's \<^verbatim>\<open>float\<close> is read as a real number: rounding, overflow,
  infinities and NaN of binary64 are outside this model, and every statement below is a
  statement about the exact arithmetic of the formulas. Float operations that leave the
  binary64 range return an infinity in Python, they do not raise.

  The parameters annotated \<^verbatim>\<open>float\<close> are reals. \<^verbatim>\<open>car_emissions\<close> and
  \<^verbatim>\<open>flight_emissions\<close> have a parameter annotated \<^verbatim>\<open>int\<close>, and Python's integers are
  unbounded: their arguments are numbers that are either an \<^verbatim>\<open>int\<close> or a \<^verbatim>\<open>float\<close>, and
  the conversion of an \<^verbatim>\<open>int\<close> operand that meets a \<^verbatim>\<open>float\<close> is part of the model.

  What Python does beyond returning a float is kept as a value:
  \<^item> \<^verbatim>\<open>a / b\<close> raises \<^verbatim>\<open>ZeroDivisionError\<close> when \<^verbatim>\<open>b\<close> is zero;
  \<^item> an \<^verbatim>\<open>int\<close> operand of a mixed operation is converted to \<^verbatim>\<open>float\<close>, which raises
    \<^verbatim>\<open>OverflowError\<close> when the integer rounds to a magnitude beyond the largest float;
  \<^item> \<^verbatim>\<open>x ** y\<close> on floats returns 1 for \<^verbatim>\<open>y == 0\<close>, raises \<^verbatim>\<open>ZeroDivisionError\<close> for a
    zero base and a negative exponent, and returns a \<^verbatim>\<open>complex\<close> for a negative base and
    a non-integer exponent;
  \<^item> \<^verbatim>\<open>int(x)\<close> truncates towards zero.
\<close>

subsection \<open>Python arithmetic\<close>

datatype py_error = ZeroDivisionError | OverflowError

datatype pyval = PyFloat real | PyComplex complex

definition py_truediv :: "real \<Rightarrow> real \<Rightarrow> py_error + real" where
  "py_truediv a b = (if b = 0 then Inl ZeroDivisionError else Inr (a / b))"

text \<open>
  \<^verbatim>\<open>float.__pow__\<close>, in the order of its case analysis: exponent zero; base zero; negative
  base (handed over to \<^verbatim>\<open>complex.__pow__\<close> when the exponent is not an integer, which
  computes modulus \<^verbatim>\<open>|x| ** y\<close> and phase \<^verbatim>\<open>atan2(0, x) * y = pi * y\<close>; sign by parity
  otherwise); positive base.
\<close>

definition py_pow :: "real \<Rightarrow> real \<Rightarrow> py_error + pyval" where
  "py_pow x y =
     (if y = 0 then Inr (PyFloat 1)
      else if x = 0 then (if y < 0 then Inl ZeroDivisionError else Inr (PyFloat 0))
      else if x < 0 then
        (if y \<noteq> of_int \<lfloor>y\<rfloor>
         then Inr (PyComplex (Complex ((- x) powr y * cos (pi * y)) ((- x) powr y * sin (pi * y))))
         else Inr (PyFloat ((if odd \<lfloor>y\<rfloor> then - 1 else 1) * (- x) powr y)))
      else Inr (PyFloat (x powr y)))"

text \<open>Multiplication of a float by the result of \<^verbatim>\<open>**\<close>, which is a float or a complex.\<close>

fun py_mul :: "real \<Rightarrow> pyval \<Rightarrow> pyval" where
  "py_mul c (PyFloat x) = PyFloat (c * x)"
| "py_mul c (PyComplex z) = PyComplex (complex_of_real c * z)"

text \<open>
  A number passed by a caller: an \<^verbatim>\<open>int\<close> of any size, or a \<^verbatim>\<open>float\<close>.
\<close>

datatype pynum = IntNum int | FloatNum real

fun num_val :: "pynum \<Rightarrow> real" where
  "num_val (IntNum n) = of_int n"
| "num_val (FloatNum x) = x"

text \<open>
  Conversion of an \<^verbatim>\<open>int\<close> to \<^verbatim>\<open>float\<close> rounds to nearest, ties to even. The largest
  float is \<open>2\<^sup>1\<^sup>0\<^sup>2\<^sup>4 - 2\<^sup>9\<^sup>7\<^sup>1\<close>, so an integer converts when its magnitude is below
  \<open>2\<^sup>1\<^sup>0\<^sup>2\<^sup>4 - 2\<^sup>9\<^sup>7\<^sup>0\<close>, and the conversion raises \<^verbatim>\<open>OverflowError\<close> from there on.
\<close>

definition fits_float :: "int \<Rightarrow> bool" where
  "fits_float n \<longleftrightarrow> \<bar>n\<bar> < 2 ^ 1024 - 2 ^ 970"

definition int_to_float :: "int \<Rightarrow> py_error + real" where
  "int_to_float n = (if fits_float n then Inr (of_int n) else Inl OverflowError)"

fun num_to_float :: "pynum \<Rightarrow> py_error + real" where
  "num_to_float (IntNum n) = int_to_float n"
| "num_to_float (FloatNum x) = Inr x"

text \<open>
  \<^verbatim>\<open>a * b\<close>: exact on two integers; otherwise both operands are converted to
  \<^verbatim>\<open>float\<close>, the left one first, and the floats are multiplied.
\<close>

fun num_mul :: "pynum \<Rightarrow> pynum \<Rightarrow> py_error + pynum" where
  "num_mul (IntNum a) (IntNum b) = Inr (IntNum (a * b))"
| "num_mul a b =
     (case num_to_float a of
        Inl e \<Rightarrow> Inl e
      | Inr x \<Rightarrow>
          (case num_to_float b of
             Inl e \<Rightarrow> Inl e
           | Inr y \<Rightarrow> Inr (FloatNum (x * y))))"

text \<open>\<^verbatim>\<open>a / b\<close> with a float divisor: the dividend is converted, then divided.\<close>

definition num_truediv :: "pynum \<Rightarrow> real \<Rightarrow> py_error + real" where
  "num_truediv a b =
     (case num_to_float a of Inl e \<Rightarrow> Inl e | Inr x \<Rightarrow> py_truediv x b)"

text \<open>\<^verbatim>\<open>int(x)\<close> of a float: the integer part, rounding towards zero.\<close>

definition py_int :: "real \<Rightarrow> int" where
  "py_int x = (if 0 \<le> x then \<lfloor>x\<rfloor> else \<lceil>x\<rceil>)"

subsection \<open>Module constants\<close>

definition WORLD_POP :: real where
  "WORLD_POP = 8100000000"

definition GIRAFFE_HT :: real where
  "GIRAFFE_HT = 5.5"

definition LA_DENSITY :: real where
  "LA_DENSITY = 6000"

subsection \<open>Emissions calculators\<close>

text \<open>
  \<^verbatim>\<open>soda_emissions\<close> reads the module global \<^verbatim>\<open>WORLD_POP\<close>. Its body is given with the
  value of that global as an explicit first parameter; the function itself is the body at
  the value the module binds. The returned dict has the two keys \<^verbatim>\<open>"t"\<close> and \<^verbatim>\<open>"m3"\<close>, in
  this order.
\<close>

definition soda_emissions_body ::
  "real \<Rightarrow> real \<Rightarrow> real \<Rightarrow> py_error + (string \<times> real) list" where
  "soda_emissions_body world_pop litres_per_capita_yr g_co2_per_l =
     (case py_truediv (world_pop * litres_per_capita_yr) 365 of
        Inl e \<Rightarrow> Inl e
      | Inr daily_litres \<Rightarrow>
          (let daily_g = daily_litres * g_co2_per_l in
           case py_truediv daily_g 1000000 of
             Inl e \<Rightarrow> Inl e
           | Inr daily_t \<Rightarrow>
               (case py_truediv daily_g 44 of
                  Inl e \<Rightarrow> Inl e
                | Inr moles \<Rightarrow>
                    (let volume_m3 = moles * 0.0224 in
                     Inr [(''t'', daily_t), (''m3'', volume_m3)]))))"

definition soda_emissions :: "real \<Rightarrow> real \<Rightarrow> py_error + (string \<times> real) list" where
  "soda_emissions litres_per_capita_yr g_co2_per_l =
     soda_emissions_body WORLD_POP litres_per_capita_yr g_co2_per_l"

text \<open>
  \<^verbatim>\<open>n_cars * miles_per_day * g_co2_mile / 1e6\<close> is evaluated from the left: two products,
  then the division by the float literal.
\<close>

definition car_emissions :: "pynum \<Rightarrow> pynum \<Rightarrow> pynum \<Rightarrow> py_error + real" where
  "car_emissions n_cars miles_per_day g_co2_mile =
     (case num_mul n_cars miles_per_day of
        Inl e \<Rightarrow> Inl e
      | Inr a \<Rightarrow>
          (case num_mul a g_co2_mile of
             Inl e \<Rightarrow> Inl e
           | Inr b \<Rightarrow> num_truediv b 1000000))"

definition flight_emissions :: "pynum \<Rightarrow> pynum \<Rightarrow> py_error + pynum" where
  "flight_emissions n_flights t_co2_per_flight = num_mul n_flights t_co2_per_flight"

subsection \<open>Geometric sizing and hazard heuristics\<close>

text \<open>
  \<^verbatim>\<open>lethal_radius\<close> and \<^verbatim>\<open>victim_estimate\<close> have default values for their last two
  parameters (\<^verbatim>\<open>1.6e6\<close> and \<^verbatim>\<open>25\<close>; \<^verbatim>\<open>LA_DENSITY\<close> and \<^verbatim>\<open>0.35\<close>). Here every parameter is
  explicit, and a call that relies on a default passes that value.
\<close>

definition sphere_diameter :: "real \<Rightarrow> py_error + pyval" where
  "sphere_diameter volume_m3 =
     (case py_truediv (3 * volume_m3) (4 * pi) of
        Inl e \<Rightarrow> Inl e
      | Inr q \<Rightarrow>
          (case py_pow q (1 / 3) of
             Inl e \<Rightarrow> Inl e
           | Inr r \<Rightarrow> Inr (py_mul 2 r)))"

definition lethal_radius :: "real \<Rightarrow> real \<Rightarrow> real \<Rightarrow> py_error + pyval" where
  "lethal_radius daily_t nyos_mass_t nyos_radius_km =
     (case py_truediv daily_t nyos_mass_t of
        Inl e \<Rightarrow> Inl e
      | Inr q \<Rightarrow>
          (case py_pow q (1 / 3) of
             Inl e \<Rightarrow> Inl e
           | Inr p \<Rightarrow> Inr (py_mul nyos_radius_km p)))"

text \<open>
  The exponent of \<^verbatim>\<open>kill_r_km**2\<close> is the integer literal 2, for which \<^verbatim>\<open>**\<close> is the
  square at every float.
\<close>

definition victim_estimate :: "real \<Rightarrow> real \<Rightarrow> real \<Rightarrow> int" where
  "victim_estimate kill_r_km density lethality =
     (let area = pi * kill_r_km ^ 2 in py_int (area * density * lethality))"

subsection \<open>Reading a result\<close>

text \<open>
  Two observers used to state that a returned number lies in an interval: one for a
  float result, one for an entry of the returned dict. An error or a complex result lies
  in no interval.
\<close>

fun float_within :: "real \<Rightarrow> real \<Rightarrow> py_error + pyval \<Rightarrow> bool" where
  "float_within lo hi (Inr (PyFloat x)) = (lo \<le> x \<and> x \<le> hi)"
| "float_within lo hi (Inr (PyComplex z)) = False"
| "float_within lo hi (Inl e) = False"

fun entry_within :: "string \<Rightarrow> real \<Rightarrow> real \<Rightarrow> py_error + (string \<times> real) list \<Rightarrow> bool" where
  "entry_within k lo hi (Inr d) =
     (case map_of d k of None \<Rightarrow> False | Some x \<Rightarrow> lo \<le> x \<and> x \<le> hi)"
| "entry_within k lo hi (Inl e) = False"

section \<open>Basic facts\<close>

lemma py_truediv_nonzero: "b \<noteq> 0 \<Longrightarrow> py_truediv a b = Inr (a / b)"
  by (simp add: py_truediv_def)

lemma py_pow_third_nonneg: "0 \<le> x \<Longrightarrow> py_pow x (1 / 3) = Inr (PyFloat (root 3 x))"
  by (simp add: py_pow_def root_powr_inverse)

lemma soda_emissions_body_eq:
  "soda_emissions_body p l g =
     Inr [(''t'', p * l / 365 * g / 1000000), (''m3'', p * l / 365 * g / 44 * 0.0224)]"
  by (simp add: soda_emissions_body_def py_truediv_def)

lemma sphere_diameter_nonneg:
  "0 \<le> v \<Longrightarrow> sphere_diameter v = Inr (PyFloat (2 * root 3 (3 * v / (4 * pi))))"
  by (simp add: sphere_diameter_def py_truediv_def py_pow_third_nonneg)

lemma lethal_radius_nonneg:
  "m \<noteq> 0 \<Longrightarrow> 0 \<le> d / m \<Longrightarrow> lethal_radius d m r = Inr (PyFloat (r * root 3 (d / m)))"
  by (simp add: lethal_radius_def py_truediv_def py_pow_third_nonneg)

lemma py_int_nonneg: "0 \<le> x \<Longrightarrow> py_int x = \<lfloor>x\<rfloor>"
  by (simp add: py_int_def)

lemma root3_cube: "0 \<le> c \<Longrightarrow> root 3 (c ^ 3) = c"
  by (simp add: real_root_power_cancel)

lemma soda_body_nonneg:
  "0 \<le> (p::real) \<Longrightarrow> 0 \<le> l \<Longrightarrow> 0 \<le> g \<Longrightarrow>
     0 \<le> p * l / 365 * g / 1000000 \<and> 0 \<le> p * l / 365 * g / 44 * 0.0224"
  by simp

lemma soda_body_scale_pop:
  "soda_emissions_body (c * p) l g =
     Inr [(''t'', c * (p * l / 365 * g / 1000000)), (''m3'', c * (p * l / 365 * g / 44 * 0.0224))]"
  by (simp add: soda_emissions_body_eq)

lemma soda_body_scale_rate:
  "soda_emissions_body p (c * l) g =
     Inr [(''t'', c * (p * l / 365 * g / 1000000)), (''m3'', c * (p * l / 365 * g / 44 * 0.0224))]"
  by (simp add: soda_emissions_body_eq)

lemma victim_product_nonneg: "0 \<le> d \<Longrightarrow> 0 \<le> l \<Longrightarrow> 0 \<le> pi * k ^ 2 * d * l"
  by simp

lemma victim_product_mono:
  assumes "0 \<le> d" "0 \<le> l" "0 \<le> k" "k \<le> k'"
  shows "pi * k ^ 2 * d * l \<le> pi * k' ^ 2 * d * l"
proof -
  from assms have "k ^ 2 \<le> k' ^ 2" by (simp add: power_mono)
  then have "pi * k ^ 2 \<le> pi * k' ^ 2" by simp
  with assms show ?thesis by (simp add: mult_right_mono)
qed

text \<open>
  The radius of the fourth scenario of the specification, enclosed by cubing the bounds:
  \<open>0.7932\<^sup>3 < 798771 / 1600000 < 0.7936\<^sup>3\<close>.
\<close>

lemma scenario_radius_value:
  "lethal_radius 798771 1600000 25 = Inr (PyFloat (25 * root 3 (798771 / 1600000)))"
  by (rule lethal_radius_nonneg) simp_all

lemma scenario_radius_lower: "19.83 \<le> 25 * root 3 (798771 / 1600000)"
proof -
  have "(19.83 / 25 :: real) = root 3 ((19.83 / 25) ^ 3)"
    by (rule root3_cube [symmetric]) simp
  also have "\<dots> \<le> root 3 (798771 / 1600000)"
    by (rule real_root_le_mono) (simp_all add: power3_eq_cube)
  finally show ?thesis by simp
qed

lemma scenario_radius_upper: "25 * root 3 (798771 / 1600000) \<le> 19.84"
proof -
  have "root 3 (798771 / 1600000) \<le> root 3 ((19.84 / 25) ^ 3)"
    by (rule real_root_le_mono) (simp_all add: power3_eq_cube)
  also have "\<dots> = (19.84 / 25 :: real)"
    by (rule root3_cube) simp
  finally show ?thesis by simp
qed

section \<open>The emissions calculators\<close>

text \<open>
  C2, as the specification states it: \<^verbatim>\<open>car_emissions\<close> has no failure mode at any
  input. The fleet size is an \<^verbatim>\<open>int\<close>; at \<^verbatim>\<open>car_emissions(10**400, 1, 1)\<close> the product
  is an integer beyond the float range, and the division by \<^verbatim>\<open>1e6\<close> raises
  \<^verbatim>\<open>OverflowError\<close>.
\<close>

theorem car_emissions_counterexample:
  "car_emissions (IntNum (10 ^ 400)) (IntNum 1) (IntNum 1) = Inl OverflowError"
  by (simp add: car_emissions_def num_truediv_def int_to_float_def fits_float_def)

text \<open>
  C2, amended: whenever \<^verbatim>\<open>car_emissions\<close> returns, it returns fleet size times miles
  times grams per mile divided by \<open>10\<^sup>6\<close>, and its only failure is the \<^verbatim>\<open>OverflowError\<close> of
  converting an \<^verbatim>\<open>int\<close> beyond the float range. It returns at all float arguments; with an
  \<^verbatim>\<open>int\<close> fleet size and float miles and grams it returns exactly when the fleet size
  converts to a float; with three \<^verbatim>\<open>int\<close> arguments it returns exactly when their product
  does. \<^verbatim>\<open>car_emissions(10e6, 30, 318)\<close> is exactly 95400.
\<close>

theorem car_emissions_result:
  "(car_emissions x y z = Inr (num_val x * num_val y * num_val z / 1000000) \<or>
    car_emissions x y z = Inl OverflowError) \<and>
   car_emissions (FloatNum n) (FloatNum m) (FloatNum g) = Inr (n * m * g / 1000000) \<and>
   car_emissions (IntNum a) (FloatNum m) (FloatNum g) =
     (if fits_float a then Inr (of_int a * m * g / 1000000) else Inl OverflowError) \<and>
   car_emissions (IntNum a) (IntNum b) (IntNum c) =
     (if fits_float (a * b * c) then Inr (of_int (a * b * c) / 1000000) else Inl OverflowError) \<and>
   car_emissions (FloatNum 10000000) (IntNum 30) (IntNum 318) = Inr 95400"
proof (intro conjI)
  show "car_emissions x y z = Inr (num_val x * num_val y * num_val z / 1000000) \<or>
    car_emissions x y z = Inl OverflowError"
    by (cases x; cases y; cases z)
      (simp_all add: car_emissions_def num_truediv_def int_to_float_def py_truediv_def)
next
  show "car_emissions (FloatNum n) (FloatNum m) (FloatNum g) = Inr (n * m * g / 1000000)"
    by (simp add: car_emissions_def num_truediv_def py_truediv_def)
next
  show "car_emissions (IntNum a) (FloatNum m) (FloatNum g) =
     (if fits_float a then Inr (of_int a * m * g / 1000000) else Inl OverflowError)"
    by (simp add: car_emissions_def num_truediv_def int_to_float_def py_truediv_def)
next
  show "car_emissions (IntNum a) (IntNum b) (IntNum c) =
     (if fits_float (a * b * c) then Inr (of_int (a * b * c) / 1000000) else Inl OverflowError)"
    by (simp add: car_emissions_def num_truediv_def int_to_float_def py_truediv_def)
next
  show "car_emissions (FloatNum 10000000) (IntNum 30) (IntNum 318) = Inr 95400"
    by (simp add: car_emissions_def num_truediv_def int_to_float_def fits_float_def
        py_truediv_def)
qed

text \<open>The same at a fleet of ten million, given as an \<^verbatim>\<open>int\<close>, with 30 miles and 318 grams.\<close>

theorem car_emissions_result_witness:
  "fits_float 10000000 \<and>
   car_emissions (IntNum 10000000) (FloatNum 30) (FloatNum 318) = Inr 95400"
  using car_emissions_result [of "IntNum 10000000" "FloatNum 30" "FloatNum 318" 0 30 318 10000000 0 0]
  by (simp add: fits_float_def)

text \<open>
  C3, as the specification states it: \<^verbatim>\<open>flight_emissions\<close> has no failure mode at any
  input. The flight count is an \<^verbatim>\<open>int\<close>; at \<^verbatim>\<open>flight_emissions(10**400, 11.37)\<close> the
  product with the float converts the integer, which raises \<^verbatim>\<open>OverflowError\<close>.
\<close>

theorem flight_emissions_counterexample:
  "flight_emissions (IntNum (10 ^ 400)) (FloatNum 11.37) = Inl OverflowError"
  by (simp add: flight_emissions_def int_to_float_def fits_float_def)

text \<open>
  C3, amended: whenever \<^verbatim>\<open>flight_emissions\<close> returns, it returns the product of its
  arguments, and its only failure is the \<^verbatim>\<open>OverflowError\<close> of converting an \<^verbatim>\<open>int\<close>
  beyond the float range. It returns at two floats and at two integers; with an \<^verbatim>\<open>int\<close>
  flight count and float tonnes per flight it returns exactly when the flight count
  converts to a float. \<^verbatim>\<open>flight_emissions(6000, 11.37)\<close> is exactly 68220.
\<close>

theorem flight_emissions_result:
  "((\<exists>r. flight_emissions x y = Inr r \<and> num_val r = num_val x * num_val y) \<or>
    flight_emissions x y = Inl OverflowError) \<and>
   flight_emissions (FloatNum n) (FloatNum t) = Inr (FloatNum (n * t)) \<and>
   flight_emissions (IntNum a) (IntNum b) = Inr (IntNum (a * b)) \<and>
   flight_emissions (IntNum a) (FloatNum t) =
     (if fits_float a then Inr (FloatNum (of_int a * t)) else Inl OverflowError) \<and>
   flight_emissions (IntNum 6000) (FloatNum 11.37) = Inr (FloatNum 68220)"
proof (intro conjI)
  show "(\<exists>r. flight_emissions x y = Inr r \<and> num_val r = num_val x * num_val y) \<or>
    flight_emissions x y = Inl OverflowError"
    by (cases x; cases y) (simp_all add: flight_emissions_def int_to_float_def)
next
  show "flight_emissions (FloatNum n) (FloatNum t) = Inr (FloatNum (n * t))"
    by (simp add: flight_emissions_def)
next
  show "flight_emissions (IntNum a) (IntNum b) = Inr (IntNum (a * b))"
    by (simp add: flight_emissions_def)
next
  show "flight_emissions (IntNum a) (FloatNum t) =
     (if fits_float a then Inr (FloatNum (of_int a * t)) else Inl OverflowError)"
    by (simp add: flight_emissions_def int_to_float_def)
next
  show "flight_emissions (IntNum 6000) (FloatNum 11.37) = Inr (FloatNum 68220)"
    by (simp add: flight_emissions_def int_to_float_def fits_float_def)
qed

text \<open>The same at 6000 flights of 11.37 tonnes each.\<close>

theorem flight_emissions_result_witness:
  "fits_float 6000 \<and>
   flight_emissions (IntNum 6000) (FloatNum 11.37) = Inr (FloatNum 68220) \<and>
   flight_emissions (IntNum 6000) (IntNum 2) = Inr (IntNum 12000)"
  using flight_emissions_result [of "IntNum 6000" "FloatNum 11.37" 0 "11.37" 6000 2]
  by (simp add: fits_float_def)

text \<open>
  C10: \<^verbatim>\<open>soda_emissions\<close> takes two arguments, litres per capita per year and grams of
  CO2 per litre, and its result is a function of these two alone: the population in the
  formula is the module constant \<^verbatim>\<open>WORLD_POP = 8.1e9\<close>, which no caller supplies.
\<close>

theorem soda_emissions_two_arguments:
  "WORLD_POP = 8100000000 \<and>
   soda_emissions l g =
     Inr [(''t'', 8100000000 * l / 365 * g / 1000000),
          (''m3'', 8100000000 * l / 365 * g / 44 * 0.0224)]"
  by (simp add: soda_emissions_def soda_emissions_body_eq WORLD_POP_def)

text \<open>
  C1, as the specification states it: at 23.47 litres per capita and 6 grams per litre the
  daily mass is about 798771 tonnes and the daily volume about 406651126 cubic metres.
  The function returns neither: both entries are outside an interval of more than ten per
  cent around the stated numbers.
\<close>

theorem soda_scenario_counterexample:
  "\<not> entry_within ''t'' 700000 900000 (soda_emissions 23.47 6) \<and>
   \<not> entry_within ''m3'' 360000000 450000000 (soda_emissions 23.47 6)"
  by (simp add: soda_emissions_def soda_emissions_body_eq WORLD_POP_def)

text \<open>
  C1, amended: with the population fixed at \<^verbatim>\<open>WORLD_POP\<close>, \<^verbatim>\<open>soda_emissions\<close> computes
  daily litres as population times per-capita rate over 365, daily grams as daily litres
  times grams per litre, and returns the daily mass in tonnes, daily grams over \<open>10\<^sup>6\<close>, and
  the daily volume in cubic metres, daily grams over 44 times 0.0224. At 23.47 litres per
  capita and 6 grams per litre this is about 3125.05 tonnes and about 1590933 cubic metres.
\<close>

theorem soda_emissions_formula:
  "soda_emissions l g =
     (let daily_litres = WORLD_POP * l / 365;
          daily_grams = daily_litres * g
      in Inr [(''t'', daily_grams / 1000000), (''m3'', daily_grams / 44 * 0.0224)]) \<and>
   entry_within ''t'' 3125.04 3125.05 (soda_emissions 23.47 6) \<and>
   entry_within ''m3'' 1590932 1590933 (soda_emissions 23.47 6)"
  by (simp add: soda_emissions_def soda_emissions_body_eq WORLD_POP_def)

text \<open>
  C7: at non-negative inputs \<^verbatim>\<open>soda_emissions\<close> returns a non-negative mass and a
  non-negative volume, and both scale linearly with the world population (the value of the
  global the body reads) and with the per-capita rate: multiplying either by \<open>c\<close> multiplies
  both outputs by \<open>c\<close>. In particular, doubling the litres per capita doubles the mass.
\<close>

theorem soda_emissions_nonneg_linear:
  assumes "0 \<le> p" "0 \<le> l" "0 \<le> g"
  shows "(\<exists>t v. soda_emissions_body p l g = Inr [(''t'', t), (''m3'', v)] \<and> 0 \<le> t \<and> 0 \<le> v \<and>
            soda_emissions_body (c * p) l g = Inr [(''t'', c * t), (''m3'', c * v)] \<and>
            soda_emissions_body p (c * l) g = Inr [(''t'', c * t), (''m3'', c * v)]) \<and>
         (\<exists>t v. soda_emissions l g = Inr [(''t'', t), (''m3'', v)] \<and> 0 \<le> t \<and> 0 \<le> v \<and>
            soda_emissions (c * l) g = Inr [(''t'', c * t), (''m3'', c * v)] \<and>
            soda_emissions (2 * l) g = Inr [(''t'', 2 * t), (''m3'', 2 * v)])"
proof (rule conjI)
  from assms soda_body_nonneg [of p l g]
  have "0 \<le> p * l / 365 * g / 1000000" and "0 \<le> p * l / 365 * g / 44 * 0.0224"
    by simp_all
  with soda_emissions_body_eq [of p l g] soda_body_scale_pop [of c p l g]
    soda_body_scale_rate [of p c l g]
  show "\<exists>t v. soda_emissions_body p l g = Inr [(''t'', t), (''m3'', v)] \<and> 0 \<le> t \<and> 0 \<le> v \<and>
            soda_emissions_body (c * p) l g = Inr [(''t'', c * t), (''m3'', c * v)] \<and>
            soda_emissions_body p (c * l) g = Inr [(''t'', c * t), (''m3'', c * v)]"
    by blast
next
  have w: "0 \<le> WORLD_POP" by (simp add: WORLD_POP_def)
  from assms w soda_body_nonneg [of WORLD_POP l g]
  have "0 \<le> WORLD_POP * l / 365 * g / 1000000" and "0 \<le> WORLD_POP * l / 365 * g / 44 * 0.0224"
    by simp_all
  with soda_emissions_body_eq [of WORLD_POP l g] soda_body_scale_rate [of WORLD_POP c l g]
    soda_body_scale_rate [of WORLD_POP 2 l g]
  show "\<exists>t v. soda_emissions l g = Inr [(''t'', t), (''m3'', v)] \<and> 0 \<le> t \<and> 0 \<le> v \<and>
            soda_emissions (c * l) g = Inr [(''t'', c * t), (''m3'', c * v)] \<and>
            soda_emissions (2 * l) g = Inr [(''t'', 2 * t), (''m3'', 2 * v)]"
    unfolding soda_emissions_def by blast
qed

text \<open>The same at the module's population, the default slider values and the factor 2.\<close>

theorem soda_emissions_nonneg_linear_witness:
  "(0::real) \<le> 8100000000 \<and> (0::real) \<le> 23.47 \<and> (0::real) \<le> 6 \<and>
   (\<exists>t v. soda_emissions_body 8100000000 23.47 6 = Inr [(''t'', t), (''m3'', v)] \<and> 0 \<le> t \<and> 0 \<le> v \<and>
      soda_emissions_body (2 * 8100000000) 23.47 6 = Inr [(''t'', 2 * t), (''m3'', 2 * v)] \<and>
      soda_emissions_body 8100000000 (2 * 23.47) 6 = Inr [(''t'', 2 * t), (''m3'', 2 * v)]) \<and>
   (\<exists>t v. soda_emissions 23.47 6 = Inr [(''t'', t), (''m3'', v)] \<and> 0 \<le> t \<and> 0 \<le> v \<and>
      soda_emissions (2 * 23.47) 6 = Inr [(''t'', 2 * t), (''m3'', 2 * v)])"
  using soda_emissions_nonneg_linear [of 8100000000 "23.47" 6 2] by auto

section \<open>The hazard heuristic\<close>

text \<open>
  C9: \<^verbatim>\<open>lethal_radius\<close> validates nothing. With a reference mass of zero the division
  raises \<^verbatim>\<open>ZeroDivisionError\<close>, and the function hands that error to its caller as it is.
\<close>

theorem lethal_radius_zero_reference_mass:
  "lethal_radius d 0 r = Inl ZeroDivisionError"
  by (simp add: lethal_radius_def py_truediv_def)

text \<open>
  C4: \<^verbatim>\<open>lethal_radius\<close> reproduces the reference point, \<^verbatim>\<open>lethal_radius(m, m, r) == r\<close> for
  every reference mass \<open>m > 0\<close> and every reference radius \<open>r\<close>, and for a positive reference
  mass and radius it is monotonically increasing in the daily mass over the non-negative
  masses, weakly and strictly.
\<close>

theorem lethal_radius_monotone_reference:
  assumes "0 < m"
  shows "lethal_radius m m r = Inr (PyFloat r) \<and>
    (0 < r \<and> 0 \<le> a \<and> a \<le> b \<longrightarrow>
      (\<exists>x y. lethal_radius a m r = Inr (PyFloat x) \<and> lethal_radius b m r = Inr (PyFloat y) \<and>
             x \<le> y \<and> (a < b \<longrightarrow> x < y)))"
proof (intro conjI impI)
  from assms show "lethal_radius m m r = Inr (PyFloat r)"
    by (simp add: lethal_radius_nonneg)
next
  assume h: "0 < r \<and> 0 \<le> a \<and> a \<le> b"
  with assms have qa: "0 \<le> a / m" and qb: "0 \<le> b / m" and le: "a / m \<le> b / m"
    by (simp_all add: divide_right_mono)
  from assms have m: "m \<noteq> 0" by simp
  have ea: "lethal_radius a m r = Inr (PyFloat (r * root 3 (a / m)))"
    using m qa by (rule lethal_radius_nonneg)
  have eb: "lethal_radius b m r = Inr (PyFloat (r * root 3 (b / m)))"
    using m qb by (rule lethal_radius_nonneg)
  have weak: "r * root 3 (a / m) \<le> r * root 3 (b / m)"
    using h le by simp
  have strict: "a < b \<longrightarrow> r * root 3 (a / m) < r * root 3 (b / m)"
    using h assms by (simp add: divide_strict_right_mono)
  from ea eb weak strict
  show "\<exists>x y. lethal_radius a m r = Inr (PyFloat x) \<and> lethal_radius b m r = Inr (PyFloat y) \<and>
             x \<le> y \<and> (a < b \<longrightarrow> x < y)"
    by blast
qed

text \<open>The same at the Lake Nyos reference, between the masses 0 and 1600000.\<close>

theorem lethal_radius_monotone_reference_witness:
  "(0::real) < 1600000 \<and> lethal_radius 1600000 1600000 25 = Inr (PyFloat 25) \<and>
   (\<exists>x y. lethal_radius 0 1600000 25 = Inr (PyFloat x) \<and>
          lethal_radius 1600000 1600000 25 = Inr (PyFloat y) \<and> x \<le> y \<and> x < y)"
  using lethal_radius_monotone_reference [of 1600000 25 0 1600000] by auto

text \<open>
  C8, as the specification states it: \<^verbatim>\<open>lethal_radius(798771, 1.6e6, 25)\<close> is about 21.1
  kilometres. The value the function returns is not within one kilometre of 21.1.
\<close>

theorem lethal_radius_scenario_counterexample:
  "\<not> float_within 20.1 22.1 (lethal_radius 798771 1600000 25)"
  using scenario_radius_upper by (simp add: scenario_radius_value)

text \<open>
  C8, amended: \<^verbatim>\<open>lethal_radius(798771, 1.6e6, 25)\<close> is about 19.8 kilometres, between 19.83
  and 19.84.
\<close>

theorem lethal_radius_scenario:
  "float_within 19.83 19.84 (lethal_radius 798771 1600000 25)"
  using scenario_radius_lower scenario_radius_upper by (simp add: scenario_radius_value)

section \<open>The casualty estimate\<close>

text \<open>
  C5, as the specification states it: \<^verbatim>\<open>victim_estimate\<close> returns the floor of the product
  of area, density and lethality. With a radius of 1, a density of 1 and a lethality of
  \<open>-0.25\<close>, which nothing clamps, the product is \<open>-pi / 4\<close>: \<^verbatim>\<open>int\<close> gives 0, the floor is
  \<open>-1\<close>.
\<close>

theorem victim_estimate_counterexample:
  "victim_estimate 1 1 (- 0.25) \<noteq> \<lfloor>pi * 1 ^ 2 * 1 * (- 0.25)\<rfloor>"
proof -
  have lo: "2 \<le> pi" by (rule pi_ge_two)
  have hi: "pi < 4" by (rule pi_less_4)
  have c: "\<lceil>- (pi / 4)\<rceil> = 0" using lo hi by (intro ceiling_unique) simp_all
  have f: "\<lfloor>- (pi / 4)\<rfloor> = - 1" using lo hi by (intro floor_unique) simp_all
  have neg: "\<not> pi \<le> 0"
    using pi_gt_zero by (simp only: not_le)
  have v: "victim_estimate 1 1 (- 0.25) = \<lceil>- (pi / 4)\<rceil>"
    using neg by (simp add: victim_estimate_def py_int_def)
  have w: "\<lfloor>pi * 1 ^ 2 * 1 * (- 0.25)\<rfloor> = \<lfloor>- (pi / 4)\<rfloor>"
    by simp
  show ?thesis
    by (simp only: v w c f)
qed

text \<open>
  C5, amended: \<^verbatim>\<open>victim_estimate\<close> returns the product \<open>pi\<close> times radius squared times
  density times lethality truncated towards zero: its floor where the product is not
  negative, its ceiling where it is. For a non-negative density and lethality the result is
  the floor of the product and is not negative, and over the radii from 0 upwards it is
  monotonically non-decreasing in the radius.
\<close>

theorem victim_estimate_truncation:
  "victim_estimate k d l =
     (if 0 \<le> pi * k ^ 2 * d * l then \<lfloor>pi * k ^ 2 * d * l\<rfloor> else \<lceil>pi * k ^ 2 * d * l\<rceil>) \<and>
   (0 \<le> d \<and> 0 \<le> l \<longrightarrow>
      victim_estimate k d l = \<lfloor>pi * k ^ 2 * d * l\<rfloor> \<and>
      0 \<le> victim_estimate k d l \<and>
      (0 \<le> k \<and> k \<le> k' \<longrightarrow> victim_estimate k d l \<le> victim_estimate k' d l))"
proof (intro conjI impI)
  show "victim_estimate k d l =
     (if 0 \<le> pi * k ^ 2 * d * l then \<lfloor>pi * k ^ 2 * d * l\<rfloor> else \<lceil>pi * k ^ 2 * d * l\<rceil>)"
    by (simp add: victim_estimate_def py_int_def)
next
  assume h: "0 \<le> d \<and> 0 \<le> l"
  then have p: "0 \<le> pi * k ^ 2 * d * l" by (simp add: victim_product_nonneg)
  show e: "victim_estimate k d l = \<lfloor>pi * k ^ 2 * d * l\<rfloor>"
    using p by (simp add: victim_estimate_def py_int_nonneg)
  show "0 \<le> victim_estimate k d l"
    using p by (simp only: e zero_le_floor)
  assume kk: "0 \<le> k \<and> k \<le> k'"
  from h have p': "0 \<le> pi * k' ^ 2 * d * l" by (simp add: victim_product_nonneg)
  have e': "victim_estimate k' d l = \<lfloor>pi * k' ^ 2 * d * l\<rfloor>"
    using p' by (simp add: victim_estimate_def py_int_nonneg)
  from h kk have "pi * k ^ 2 * d * l \<le> pi * k' ^ 2 * d * l"
    by (simp add: victim_product_mono)
  then show "victim_estimate k d l \<le> victim_estimate k' d l"
    by (simp only: e e' floor_mono)
qed

text \<open>The same at the module's defaults, density 6000 and lethality 0.35, for the radii 1 and 2.\<close>

theorem victim_estimate_truncation_witness:
  "(0::real) \<le> 6000 \<and> (0::real) \<le> 0.35 \<and> (0::real) \<le> 1 \<and> (1::real) \<le> 2 \<and>
   victim_estimate 1 6000 0.35 = \<lfloor>pi * 1 ^ 2 * 6000 * 0.35\<rfloor> \<and>
   0 \<le> victim_estimate 1 6000 0.35 \<and>
   victim_estimate 1 6000 0.35 \<le> victim_estimate 2 6000 0.35"
  using victim_estimate_truncation [of 1 6000 "0.35" 2] by simp

section \<open>The sphere\<close>

text \<open>
  C6: for every volume \<open>V \<ge> 0\<close>, \<^verbatim>\<open>sphere_diameter(V)\<close> returns twice the cube root of
  \<open>3 V / (4 pi)\<close>; \<^verbatim>\<open>sphere_diameter(0)\<close> is 0; and over the non-negative volumes the
  diameter is monotonically increasing in the volume, weakly and strictly.
\<close>

theorem sphere_diameter_formula_monotone:
  assumes "0 \<le> v"
  shows "sphere_diameter v = Inr (PyFloat (2 * root 3 (3 * v / (4 * pi)))) \<and>
    sphere_diameter 0 = Inr (PyFloat 0) \<and>
    (v \<le> w \<longrightarrow>
      (\<exists>x y. sphere_diameter v = Inr (PyFloat x) \<and> sphere_diameter w = Inr (PyFloat y) \<and>
             x \<le> y \<and> (v < w \<longrightarrow> x < y)))"
proof (intro conjI impI)
  from assms show "sphere_diameter v = Inr (PyFloat (2 * root 3 (3 * v / (4 * pi))))"
    by (rule sphere_diameter_nonneg)
next
  show "sphere_diameter 0 = Inr (PyFloat 0)"
    by (simp add: sphere_diameter_nonneg)
next
  assume le: "v \<le> w"
  with assms have w: "0 \<le> w" by simp
  have weak: "2 * root 3 (3 * v / (4 * pi)) \<le> 2 * root 3 (3 * w / (4 * pi))"
    using le by (simp add: divide_right_mono)
  have strict: "v < w \<longrightarrow> 2 * root 3 (3 * v / (4 * pi)) < 2 * root 3 (3 * w / (4 * pi))"
    by (simp add: divide_strict_right_mono)
  from sphere_diameter_nonneg [OF assms] sphere_diameter_nonneg [OF w] weak strict
  show "\<exists>x y. sphere_diameter v = Inr (PyFloat x) \<and> sphere_diameter w = Inr (PyFloat y) \<and>
             x \<le> y \<and> (v < w \<longrightarrow> x < y)"
    by blast
qed

text \<open>The same between the volumes 0 and 1.\<close>

theorem sphere_diameter_formula_monotone_witness:
  "(0::real) \<le> 0 \<and> sphere_diameter 0 = Inr (PyFloat 0) \<and>
   (\<exists>x y. sphere_diameter 0 = Inr (PyFloat x) \<and> sphere_diameter 1 = Inr (PyFloat y) \<and>
          x \<le> y \<and> x < y)"
  using sphere_diameter_formula_monotone [of 0 1] by auto

end
